theory Spec2Isabelle
  imports Complex_Main "HOL-Library.Sublist"
begin

section \<open>JavaScript values\<close>

text \<open>
  The module is JavaScript. The values it handles are modelled as follows.
  \<^item> A number is \<open>NaN\<close>, an infinity or a rational: every finite double is a rational,
    and the two zeros are one. Comparison follows JavaScript (every comparison with
    \<open>NaN\<close> is false). Sums and differences are exact, as double arithmetic is on
    integers of magnitude below \<open>2^53\<close>, which is all the module adds.
  \<^item> A string is the list of its code units, for code units below 256.
  \<^item> An object is the list of its own properties in enumeration order. An \<open>Error\<close>
    object is an object with a \<open>name\<close> property; arrays are not modelled.
\<close>

datatype jsnum = NaN | NegInf | Num rat | PosInf

datatype jsval =
    JUndefined
  | JNull
  | JBool bool
  | JNumber jsnum
  | JString string
  | JObject "(string \<times> jsval) list"

fun truthy :: "jsval \<Rightarrow> bool" where
  "truthy JUndefined = False"
| "truthy JNull = False"
| "truthy (JBool b) = b"
| "truthy (JNumber NaN) = False"
| "truthy (JNumber (Num n)) = (n \<noteq> 0)"
| "truthy (JNumber NegInf) = True"
| "truthy (JNumber PosInf) = True"
| "truthy (JString s) = (s \<noteq> [])"
| "truthy (JObject kvs) = True"

fun js_lt :: "jsnum \<Rightarrow> jsnum \<Rightarrow> bool" where
  "js_lt NaN b = False"
| "js_lt a NaN = False"
| "js_lt (Num a) (Num b) = (a < b)"
| "js_lt a NegInf = False"
| "js_lt NegInf b = True"
| "js_lt PosInf b = False"
| "js_lt a PosInf = True"

definition js_gt :: "jsnum \<Rightarrow> jsnum \<Rightarrow> bool" where
  "js_gt a b = js_lt b a"

fun js_neg :: "jsnum \<Rightarrow> jsnum" where
  "js_neg NaN = NaN"
| "js_neg NegInf = PosInf"
| "js_neg (Num a) = Num (- a)"
| "js_neg PosInf = NegInf"

fun js_add :: "jsnum \<Rightarrow> jsnum \<Rightarrow> jsnum" where
  "js_add NaN b = NaN"
| "js_add a NaN = NaN"
| "js_add (Num a) (Num b) = Num (a + b)"
| "js_add PosInf NegInf = NaN"
| "js_add NegInf PosInf = NaN"
| "js_add PosInf b = PosInf"
| "js_add a PosInf = PosInf"
| "js_add NegInf b = NegInf"
| "js_add a NegInf = NegInf"

definition js_sub :: "jsnum \<Rightarrow> jsnum \<Rightarrow> jsnum" where
  "js_sub a b = js_add a (js_neg b)"

text \<open>\<open>s.charCodeAt(i)\<close> is \<open>NaN\<close> and \<open>s.charAt(i)\<close> is the empty string out of range.\<close>

definition charCodeAt :: "string \<Rightarrow> nat \<Rightarrow> jsnum" where
  "charCodeAt s i = (if i < length s then Num (of_nat (of_char (s ! i))) else NaN)"

definition charAt :: "string \<Rightarrow> nat \<Rightarrow> string" where
  "charAt s i = (if i < length s then [s ! i] else [])"

text \<open>The exception raised by reading a property of \<open>undefined\<close> or \<open>null\<close>, by calling
  a method that is missing, or by writing a property of a primitive in strict mode.\<close>

definition TypeError :: jsval where
  "TypeError = JObject [(''name'', JString ''TypeError'')]"

section \<open>Helpers of the module\<close>

text \<open>\<open>clamp(value, min, max)\<close>: two assignments in sequence, the second on the value the
  first left.\<close>

definition clamp :: "jsnum \<Rightarrow> jsnum \<Rightarrow> jsnum \<Rightarrow> jsnum" where
  "clamp value lo hi =
     (let value1 = (if js_lt value lo then lo else value);
          value2 = (if js_gt value1 hi then hi else value1)
      in value2)"

section \<open>Decoding the vehicle JSON\<close>

text \<open>The vehicle JSON, with the two properties the decoders read; \<open>None\<close> is a missing
  property, and a missing vehicle is \<open>None\<close> of type \<open>vehicle_json option\<close>.\<close>

record vehicle_json =
  vin :: "string option"
  option_codes :: "string option"

record vin_info =
  carType :: string
  awd :: bool
  year :: jsnum

definition vinDecode :: "vehicle_json option \<Rightarrow> vin_info" where
  "vinDecode v =
     (let result = \<lparr>carType = ''Model S'', awd = False, year = Num 2012\<rparr> in
      case v of
        None \<Rightarrow> result
      | Some veh \<Rightarrow>
          (case vin veh of
             None \<Rightarrow> result
           | Some s \<Rightarrow>
               if s = [] then result
               else
                 let result = result\<lparr>year :=
                       js_sub (js_add (Num 2010) (charCodeAt s 9)) (charCodeAt ''A'' 0)\<rparr>;
                     model = charAt s 3;
                     result =
                       (if model = ''S'' then result\<lparr>carType := ''Model S''\<rparr>
                        else if model = ''3'' then result\<lparr>carType := ''Model 3''\<rparr>
                        else if model = ''X'' then result\<lparr>carType := ''Model X''\<rparr>
                        else if model = ''Y'' then result\<lparr>carType := ''Model Y''\<rparr>
                        else result);
                     result =
                       (if charAt s 7 = ''2'' \<or> charAt s 7 = ''4'' \<or> charAt s 7 = ''B''
                        then result\<lparr>awd := True\<rparr> else result)
                 in result))"

definition getModel :: "vehicle_json option \<Rightarrow> string" where
  "getModel v = carType (vinDecode v)"

text \<open>The table of \<open>getPaintColor\<close>, in the order of the object literal.\<close>

definition colors :: "(string \<times> string) list" where
  "colors =
     [(''PBCW'', ''white''),
      (''PBSB'', ''black''),
      (''PMAB'', ''metallic brown''),
      (''PMBL'', ''metallic black''),
      (''PMMB'', ''metallic blue''),
      (''PMMR'', ''multi-coat red''),
      (''PPMR'', ''multi-coat red''),
      (''PMNG'', ''steel grey''),
      (''PMSG'', ''metallic green''),
      (''PMSS'', ''metallic silver''),
      (''PPSB'', ''ocean blue''),
      (''PPSR'', ''signature red''),
      (''PPSW'', ''pearl white''),
      (''PPTI'', ''titanium''),
      (''PMTG'', ''metallic grey'')]"

text \<open>The alternatives of the regular expression of \<open>getPaintColor\<close>, in its order.\<close>

definition paint_codes :: "string list" where
  "paint_codes =
     [''PBCW'', ''PBSB'', ''PMAB'', ''PMBL'', ''PMMB'', ''PMMR'', ''PPMR'', ''PMNG'',
      ''PMSG'', ''PMSS'', ''PPSB'', ''PPSR'', ''PPSW'', ''PPTI'', ''PMTG'']"

text \<open>\<open>s.match(/a1|a2|.../)\<close> for literal alternatives and no flag: the match starts at
  the leftmost position where some alternative matches, and takes the first alternative
  that matches there; \<open>None\<close> is the \<open>null\<close> of no match.\<close>

fun match_alternation :: "string list \<Rightarrow> string \<Rightarrow> string option" where
  "match_alternation alts [] = find (\<lambda>a. prefix a []) alts"
| "match_alternation alts (c # cs) =
     (case find (\<lambda>a. prefix a (c # cs)) alts of
        Some a \<Rightarrow> Some a
      | None \<Rightarrow> match_alternation alts cs)"

text \<open>\<open>getPaintColor\<close> reads \<open>vehicle.option_codes\<close> with no check, so a missing vehicle
  or property raises. The match result indexes the table as the matched text; \<open>null\<close>
  indexes it as \<open>"null"\<close>, which is no key of the table.\<close>

definition getPaintColor :: "vehicle_json option \<Rightarrow> jsval + string" where
  "getPaintColor v =
     (case v of
        None \<Rightarrow> Inl TypeError
      | Some veh \<Rightarrow>
          (case option_codes veh of
             None \<Rightarrow> Inl TypeError
           | Some codes \<Rightarrow>
               let paintColor = match_alternation paint_codes codes;
                   name = (case paintColor of
                             None \<Rightarrow> map_of colors ''null''
                           | Some m \<Rightarrow> map_of colors m)
               in Inr (case name of Some n \<Rightarrow> n | None \<Rightarrow> ''black'')))"

section \<open>The request gateway\<close>

text \<open>
  What the module reads from its surroundings: its variable \<open>portalBaseURI\<close> and the
  environment variable \<open>process.env.VIN\<close> (\<open>undefined\<close> when unset). A command also
  calls the platform function \<open>new URLSearchParams(x).toString()\<close>; the token refresh
  reads the two client identity variables \<open>c_id\<close> and \<open>c_sec\<close> and calls
  \<open>JSON.stringify(x)\<close>. The platform functions are parameters: the module's behaviour
  is stated for whatever they compute. Console logging (\<open>log\<close>) changes neither a
  request nor a callback and is left out.
\<close>

record env =
  portalBaseURI :: string
  env_VIN :: jsval

record command_env = env +
  URLSearchParams_toString :: "jsval \<Rightarrow> string"

record auth_env = env +
  c_id :: string
  c_sec :: string
  JSON_stringify :: "jsval \<Rightarrow> jsval"

text \<open>The options object handed to the HTTP library; \<open>None\<close> is a property the object
  literal does not have.\<close>

record request =
  req_method :: string
  req_url :: string
  req_headers :: "(string \<times> jsval) list option"
  req_body :: "jsval option"

record response =
  statusCode :: int
  statusMessage :: string

text \<open>The HTTP library answers a request by calling the handler with
  \<open>(error, response, body)\<close>; \<open>response\<close> is \<open>None\<close> when it is \<open>undefined\<close>.\<close>

type_synonym reply = "jsval \<times> response option \<times> jsval"

text \<open>A completion callback, by what the module can observe of it: whether a call of it
  returns (\<open>None\<close>) or throws (the value thrown).\<close>

type_synonym callback = "jsval \<Rightarrow> jsval \<Rightarrow> jsval option"

text \<open>What one call of an operation does, the run of its handler on the reply included:
  the requests it issues, the calls of the completion callback in order, and the
  exception that escapes from the operation or from its handler, if any. Each operation
  below takes the reply that the HTTP library will give as its last argument.\<close>

record outcome =
  sent :: "request list"
  calls :: "(jsval \<times> jsval) list"
  thrown :: "jsval option"

definition noop :: callback where
  "noop err data = None"

text \<open>\<open>callback || function (err, data) { }\<close>, for a callback that is a function or
  absent.\<close>

definition or_noop :: "callback option \<Rightarrow> callback" where
  "or_noop callback = (case callback of Some f \<Rightarrow> f | None \<Rightarrow> noop)"

definition invoke :: "callback \<Rightarrow> jsval \<Rightarrow> jsval \<Rightarrow> (jsval \<times> jsval) list \<times> jsval option" where
  "invoke callback err data = ([(err, data)], callback err data)"

text \<open>\<open>try { callback(null, body) } catch (e) { callback(e, null) }\<close>\<close>

definition try_callback :: "callback \<Rightarrow> jsval \<Rightarrow> (jsval \<times> jsval) list \<times> jsval option" where
  "try_callback callback body =
     (case callback JNull body of
        None \<Rightarrow> ([(JNull, body)], None)
      | Some ex \<Rightarrow> ([(JNull, body), (ex, JNull)], callback ex JNull))"

text \<open>The decimal text of an integer, as string concatenation gives it for a number of
  magnitude below \<open>10^21\<close> (a status code is).\<close>

definition digit :: "nat \<Rightarrow> char" where
  "digit d = ''0123456789'' ! d"

fun decimal :: "nat \<Rightarrow> string" where
  "decimal n = (if n < 10 then [digit n] else decimal (n div 10) @ [digit (n mod 10)])"

declare decimal.simps [simp del]

definition number_text :: "int \<Rightarrow> string" where
  "number_text i = (if i < 0 then CHR ''-'' # decimal (nat (- i)) else decimal (nat i))"

text \<open>Reading and writing a property, for the names the module uses (\<open>id\<close>, \<open>id_s\<close>,
  \<open>vehicleID\<close>, \<open>access_token\<close>, \<open>refresh_token\<close>), which no primitive and no prototype
  has. The module is in strict mode, where writing a property of a primitive raises.\<close>

fun get_prop :: "jsval \<Rightarrow> string \<Rightarrow> jsval + jsval" where
  "get_prop JUndefined k = Inl TypeError"
| "get_prop JNull k = Inl TypeError"
| "get_prop (JObject kvs) k = Inr (case map_of kvs k of Some v \<Rightarrow> v | None \<Rightarrow> JUndefined)"
| "get_prop x k = Inr JUndefined"

fun put :: "string \<Rightarrow> jsval \<Rightarrow> (string \<times> jsval) list \<Rightarrow> (string \<times> jsval) list" where
  "put k v [] = [(k, v)]"
| "put k v ((k', v') # kvs) = (if k' = k then (k, v) # kvs else (k', v') # put k v kvs)"

fun set_prop :: "jsval \<Rightarrow> string \<Rightarrow> jsval \<Rightarrow> jsval + jsval" where
  "set_prop (JObject kvs) k v = Inr (JObject (put k v kvs))"
| "set_prop x k v = Inl TypeError"

definition response_value :: "response option \<Rightarrow> jsval" where
  "response_value response =
     (case response of
        None \<Rightarrow> JUndefined
      | Some r \<Rightarrow> JObject [(''statusCode'', JNumber (Num (of_int (statusCode r)))),
                           (''statusMessage'', JString (statusMessage r))])"

subsection \<open>Token refresh\<close>

text \<open>The handler of \<open>refreshToken\<close> builds the result object before it calls the
  callback; building it reads \<open>body.access_token\<close> and \<open>body.refresh_token\<close>.\<close>

definition refreshToken :: "auth_env \<Rightarrow> jsval \<Rightarrow> callback option \<Rightarrow> reply \<Rightarrow> outcome" where
  "refreshToken e refresh_token callback rep =
     (let callback = or_noop callback in
      if \<not> truthy refresh_token then
        (case invoke callback (JString ''refreshToken() requires a refresh_token'') JNull of
           (cs, t) \<Rightarrow> \<lparr>sent = [], calls = cs, thrown = t\<rparr>)
      else
        let req = \<lparr>req_method = ''GET'',
                   req_url = portalBaseURI e @ ''/oauth/token'',
                   req_headers = None,
                   req_body = Some (JObject
                     [(''grant_type'', JString ''refresh_token''),
                      (''client_id'', JString (c_id e)),
                      (''client_secret'', JString (c_sec e)),
                      (''refresh_token'', refresh_token)])\<rparr>
        in case rep of (error, response, body) \<Rightarrow>
          (case get_prop body ''access_token'' of
             Inl ex \<Rightarrow> \<lparr>sent = [req], calls = [], thrown = Some ex\<rparr>
           | Inr access_token \<Rightarrow>
               (case get_prop body ''refresh_token'' of
                  Inl ex \<Rightarrow> \<lparr>sent = [req], calls = [], thrown = Some ex\<rparr>
                | Inr new_refresh_token \<Rightarrow>
                    (case invoke callback error (JObject
                        [(''error'', error),
                         (''response'', response_value response),
                         (''body'', JSON_stringify e body),
                         (''authToken'', access_token),
                         (''refreshToken'', new_refresh_token)]) of
                       (cs, t) \<Rightarrow> \<lparr>sent = [req], calls = cs, thrown = t\<rparr>))))"

subsection \<open>Reads\<close>

text \<open>\<open>vehicle\<close> also writes \<open>options.vehicleID\<close>; the second component of its result is
  the options object after the call.\<close>

definition vehicle :: "env \<Rightarrow> jsval \<Rightarrow> callback option \<Rightarrow> reply \<Rightarrow> outcome \<times> jsval" where
  "vehicle e options callback rep =
     (let callback = or_noop callback;
          req = \<lparr>req_method = ''GET'',
                 req_url = portalBaseURI e @ ''vehicles'',
                 req_headers = Some [(''X-SSL-Client-S-CN'', env_VIN e)],
                 req_body = None\<rparr>;
          catch = (\<lambda>ex opts. (([(ex, JNull)], callback ex JNull), opts));
          ((cs, t), options') =
            (case rep of (error, response, body) \<Rightarrow>
               if truthy error then (invoke callback error JNull, options)
               else
                 (case response of
                    None \<Rightarrow> (([], Some TypeError), options)
                  | Some r \<Rightarrow>
                      if statusCode r \<noteq> 200
                      then (invoke callback (JString (statusMessage r)) JNull, options)
                      else
                        (case get_prop body ''id_s'' of
                           Inl ex \<Rightarrow> catch ex options
                         | Inr id_s \<Rightarrow>
                         (case set_prop body ''id'' id_s of
                            Inl ex \<Rightarrow> catch ex options
                          | Inr body \<Rightarrow>
                          (case get_prop body ''id'' of
                             Inl ex \<Rightarrow> catch ex options
                           | Inr ident \<Rightarrow>
                           (case set_prop options ''vehicleID'' ident of
                              Inl ex \<Rightarrow> catch ex options
                            | Inr options \<Rightarrow> (try_callback callback body, options)))))))
      in (\<lparr>sent = [req], calls = cs, thrown = t\<rparr>, options'))"

definition vehicles :: "env \<Rightarrow> jsval \<Rightarrow> callback option \<Rightarrow> reply \<Rightarrow> outcome" where
  "vehicles e options callback rep =
     (let callback = or_noop callback;
          req = \<lparr>req_method = ''GET'',
                 req_url = portalBaseURI e @ ''vehicle_data'',
                 req_headers = Some [(''X-SSL-Client-S-CN'', env_VIN e)],
                 req_body = None\<rparr>;
          (cs, t) =
            (case rep of (error, response, body) \<Rightarrow>
               if truthy error then invoke callback error JNull
               else
                 (case response of
                    None \<Rightarrow> ([], Some TypeError)
                  | Some r \<Rightarrow>
                      if statusCode r \<noteq> 200
                      then invoke callback (JString (statusMessage r)) JNull
                      else try_callback callback body))
      in \<lparr>sent = [req], calls = cs, thrown = t\<rparr>)"

definition get_command :: "env \<Rightarrow> jsval \<Rightarrow> string \<Rightarrow> callback option \<Rightarrow> reply \<Rightarrow> outcome" where
  "get_command e options command callback rep =
     (let callback = or_noop callback;
          req = \<lparr>req_method = ''GET'',
                 req_url = portalBaseURI e @ command,
                 req_headers = Some [(''X-SSL-Client-S-CN'', env_VIN e)],
                 req_body = None\<rparr>;
          (cs, t) =
            (case rep of (error, response, body) \<Rightarrow>
               if truthy error then invoke callback error JNull
               else
                 (case response of
                    None \<Rightarrow> ([], Some TypeError)
                  | Some r \<Rightarrow>
                      if statusCode r \<noteq> 200
                      then invoke callback
                             (JString (''Error response: '' @ number_text (statusCode r))) JNull
                      else try_callback callback body))
      in \<lparr>sent = [req], calls = cs, thrown = t\<rparr>)"

subsection \<open>Commands\<close>

definition post_command :: "command_env \<Rightarrow> jsval \<Rightarrow> string \<Rightarrow> jsval \<Rightarrow> callback option \<Rightarrow> reply \<Rightarrow> outcome" where
  "post_command e options command body callback rep =
     (let callback = or_noop callback;
          u = URLSearchParams_toString e body;
          cmd = \<lparr>req_method = ''GET'',
                 req_url = portalBaseURI e @ command @ ''?'' @ u,
                 req_headers = Some [(''X-SSL-Client-S-CN'', env_VIN e)],
                 req_body = Some (if truthy body then body else JNull)\<rparr>;
          (cs, t) =
            (case rep of (error, response, body) \<Rightarrow>
               if truthy error then invoke callback error JNull
               else
                 (case response of
                    None \<Rightarrow> ([], Some TypeError)
                  | Some r \<Rightarrow>
                      if statusCode r \<noteq> 200
                      then invoke callback
                             (JString (''Error response: '' @ number_text (statusCode r))) JNull
                      else try_callback callback body))
      in \<lparr>sent = [cmd], calls = cs, thrown = t\<rparr>)"

definition CHARGE_STORAGE :: jsnum where "CHARGE_STORAGE = Num 50"
definition CHARGE_RANGE :: jsnum where "CHARGE_RANGE = Num 100"

definition setChargeLimit :: "command_env \<Rightarrow> jsval \<Rightarrow> jsnum \<Rightarrow> callback option \<Rightarrow> reply \<Rightarrow> outcome" where
  "setChargeLimit e options amt callback rep =
     (let amt = clamp amt CHARGE_STORAGE CHARGE_RANGE in
      post_command e options ''set_charge_limit''
        (JObject [(''percent'', JNumber amt)]) callback rep)"

definition MIN_TEMP :: jsnum where "MIN_TEMP = Num 15"
definition MAX_TEMP :: jsnum where "MAX_TEMP = Num 28"

text \<open>The passenger temperature is a number or absent (\<open>None\<close>).\<close>

definition setTemps :: "command_env \<Rightarrow> jsval \<Rightarrow> jsnum \<Rightarrow> jsnum option \<Rightarrow> callback option \<Rightarrow> reply \<Rightarrow> outcome" where
  "setTemps e options driver pass callback rep =
     (let pass = (case pass of
                    None \<Rightarrow> driver
                  | Some p \<Rightarrow> if \<not> truthy (JNumber p) then driver else p);
          driver = clamp driver MIN_TEMP MAX_TEMP;
          pass = clamp pass MIN_TEMP MAX_TEMP
      in post_command e options ''set_temps''
           (JObject [(''driver_temp'', JNumber driver), (''passenger_temp'', JNumber pass)])
           callback rep)"

section \<open>The clamp and the two operations that use it\<close>

lemma clamp_general:
  "\<not> js_gt lo hi \<Longrightarrow>
   clamp v lo hi = (if js_lt v lo then lo else if js_gt v hi then hi else v)"
  by (cases v; cases lo; cases hi) (auto simp: clamp_def js_gt_def Let_def)

lemma clamp_num:
  "lo \<le> hi \<Longrightarrow> clamp (Num a) (Num lo) (Num hi) = Num (max lo (min hi a))"
  by (auto simp: clamp_def js_gt_def Let_def)

lemma post_command_sent:
  "sent (post_command e options command body callback rep) =
     [\<lparr>req_method = ''GET'',
       req_url = portalBaseURI e @ command @ ''?'' @ URLSearchParams_toString e body,
       req_headers = Some [(''X-SSL-Client-S-CN'', env_VIN e)],
       req_body = Some (if truthy body then body else JNull)\<rparr>]"
  by (simp add: post_command_def Let_def split: prod.splits)

lemma setChargeLimit_sent:
  "sent (setChargeLimit e options amt callback rep) =
     [\<lparr>req_method = ''GET'',
       req_url = portalBaseURI e @ ''set_charge_limit'' @ ''?'' @
         URLSearchParams_toString e
           (JObject [(''percent'', JNumber (clamp amt (Num 50) (Num 100)))]),
       req_headers = Some [(''X-SSL-Client-S-CN'', env_VIN e)],
       req_body = Some (JObject [(''percent'', JNumber (clamp amt (Num 50) (Num 100)))])\<rparr>]"
  by (simp add: setChargeLimit_def post_command_sent CHARGE_STORAGE_def CHARGE_RANGE_def
      Let_def)

lemma setTemps_sent:
  "sent (setTemps e options driver pass callback rep) =
     [\<lparr>req_method = ''GET'',
       req_url = portalBaseURI e @ ''set_temps'' @ ''?'' @
         URLSearchParams_toString e (JObject
           [(''driver_temp'', JNumber (clamp driver (Num 15) (Num 28))),
            (''passenger_temp'', JNumber (clamp
               (case pass of
                  None \<Rightarrow> driver
                | Some p \<Rightarrow> if truthy (JNumber p) then p else driver)
               (Num 15) (Num 28)))]),
       req_headers = Some [(''X-SSL-Client-S-CN'', env_VIN e)],
       req_body = Some (JObject
           [(''driver_temp'', JNumber (clamp driver (Num 15) (Num 28))),
            (''passenger_temp'', JNumber (clamp
               (case pass of
                  None \<Rightarrow> driver
                | Some p \<Rightarrow> if truthy (JNumber p) then p else driver)
               (Num 15) (Num 28)))])\<rparr>]"
  by (simp add: setTemps_def post_command_sent MIN_TEMP_def MAX_TEMP_def Let_def
      split: option.splits)

text \<open>
  C9. \<open>clamp\<close> is a two-sided clamp: with \<open>lo\<close> not above \<open>hi\<close> (the module calls it
  with the bounds 50, 100 and 15, 28 only) it returns \<open>lo\<close> when \<open>v < lo\<close>, \<open>hi\<close> when
  \<open>v > hi\<close>, and \<open>v\<close> otherwise, so \<open>clamp(30,50,100) = 50\<close>, \<open>clamp(150,50,100) = 100\<close>,
  \<open>clamp(75,50,100) = 75\<close>, and on the temperature bounds 10 gives 15 and 30 gives 28.
  The body sent by \<open>setChargeLimit\<close> carries the percent clamped to 50..100, and the body
  sent by \<open>setTemps\<close> carries the driver temperature and the passenger temperature in
  effect, both clamped to 15..28; a finite number so clamped lies within the bounds.
\<close>

theorem clamp_two_sided:
  "(\<not> js_gt lo hi \<longrightarrow>
      clamp v lo hi = (if js_lt v lo then lo else if js_gt v hi then hi else v))
   \<and> clamp (Num 30) (Num 50) (Num 100) = Num 50
   \<and> clamp (Num 150) (Num 50) (Num 100) = Num 100
   \<and> clamp (Num 75) (Num 50) (Num 100) = Num 75
   \<and> clamp (Num 10) MIN_TEMP MAX_TEMP = Num 15
   \<and> clamp (Num 30) MIN_TEMP MAX_TEMP = Num 28
   \<and> map req_body (sent (setChargeLimit e options amt callback rep)) =
       [Some (JObject [(''percent'', JNumber (clamp amt (Num 50) (Num 100)))])]
   \<and> clamp (Num a) (Num 50) (Num 100) = Num (max 50 (min 100 a))
   \<and> map req_body (sent (setTemps e options driver pass callback rep)) =
       [Some (JObject
          [(''driver_temp'', JNumber (clamp driver (Num 15) (Num 28))),
           (''passenger_temp'', JNumber (clamp
              (case pass of
                 None \<Rightarrow> driver
               | Some p \<Rightarrow> if truthy (JNumber p) then p else driver)
              (Num 15) (Num 28)))])]
   \<and> clamp (Num a) (Num 15) (Num 28) = Num (max 15 (min 28 a))"
proof -
  have g: "\<not> js_gt lo hi \<longrightarrow>
      clamp v lo hi = (if js_lt v lo then lo else if js_gt v hi then hi else v)"
    using clamp_general by blast
  have ex: "clamp (Num 30) (Num 50) (Num 100) = Num 50"
    "clamp (Num 150) (Num 50) (Num 100) = Num 100"
    "clamp (Num 75) (Num 50) (Num 100) = Num 75"
    "clamp (Num 10) MIN_TEMP MAX_TEMP = Num 15"
    "clamp (Num 30) MIN_TEMP MAX_TEMP = Num 28"
    by (simp_all add: clamp_def js_gt_def MIN_TEMP_def MAX_TEMP_def)
  have c: "map req_body (sent (setChargeLimit e options amt callback rep)) =
       [Some (JObject [(''percent'', JNumber (clamp amt (Num 50) (Num 100)))])]"
    by (simp add: setChargeLimit_sent)
  have t: "map req_body (sent (setTemps e options driver pass callback rep)) =
       [Some (JObject
          [(''driver_temp'', JNumber (clamp driver (Num 15) (Num 28))),
           (''passenger_temp'', JNumber (clamp
              (case pass of
                 None \<Rightarrow> driver
               | Some p \<Rightarrow> if truthy (JNumber p) then p else driver)
              (Num 15) (Num 28)))])]"
    by (simp add: setTemps_sent)
  have r1: "clamp (Num a) (Num 50) (Num 100) = Num (max 50 (min 100 a))"
    by (rule clamp_num) simp
  have r2: "clamp (Num a) (Num 15) (Num 28) = Num (max 15 (min 28 a))"
    by (rule clamp_num) simp
  show ?thesis using g ex c t r1 r2 by (intro conjI)
qed

theorem clamp_two_sided_witness:
  "\<not> js_gt (Num 50) (Num 100)
   \<and> js_lt (Num 30) (Num 50)
   \<and> clamp (Num 30) (Num 50) (Num 100) = Num 50
   \<and> js_gt (Num (57 / 2)) (Num 28)
   \<and> clamp (Num (57 / 2)) (Num 15) (Num 28) = Num 28"
proof -
  have h1: "\<not> js_gt (Num 50) (Num 100)" by (simp add: js_gt_def)
  have h2: "\<not> js_gt (Num 15) (Num 28)" by (simp add: js_gt_def)
  have a: "clamp (Num 30) (Num 50) (Num 100) =
      (if js_lt (Num 30) (Num 50) then Num 50
       else if js_gt (Num 30) (Num 100) then Num 100 else Num 30)"
    using clamp_two_sided [of "Num 50" "Num 100" "Num 30"] h1 by blast
  have b: "clamp (Num (57 / 2)) (Num 15) (Num 28) =
      (if js_lt (Num (57 / 2)) (Num 15) then Num 15
       else if js_gt (Num (57 / 2)) (Num 28) then Num 28 else Num (57 / 2))"
    using clamp_two_sided [of "Num 15" "Num 28" "Num (57 / 2)"] h2 by blast
  have l: "js_lt (Num 30) (Num 50)" by simp
  have m: "js_gt (Num (57 / 2)) (Num 28)" "\<not> js_lt (Num (57 / 2)) (Num 15)"
    by (simp_all add: js_gt_def)
  show ?thesis using h1 a b l m by simp
qed

text \<open>
  C10. When the passenger temperature given to \<open>setTemps\<close> is absent or falsy (\<open>0\<close> and
  \<open>NaN\<close> are the falsy numbers), the driver temperature stands in for it before the clamp:
  the request sent carries the same value as \<open>driver_temp\<close> and as \<open>passenger_temp\<close>.
\<close>

theorem setTemps_passenger_falsy:
  assumes "pass = None \<or> (\<exists>p. pass = Some p \<and> \<not> truthy (JNumber p))"
  shows "sent (setTemps e options driver pass callback rep) =
     [\<lparr>req_method = ''GET'',
       req_url = portalBaseURI e @ ''set_temps'' @ ''?'' @
         URLSearchParams_toString e (JObject
           [(''driver_temp'', JNumber (clamp driver MIN_TEMP MAX_TEMP)),
            (''passenger_temp'', JNumber (clamp driver MIN_TEMP MAX_TEMP))]),
       req_headers = Some [(''X-SSL-Client-S-CN'', env_VIN e)],
       req_body = Some (JObject
           [(''driver_temp'', JNumber (clamp driver MIN_TEMP MAX_TEMP)),
            (''passenger_temp'', JNumber (clamp driver MIN_TEMP MAX_TEMP))])\<rparr>]"
  using assms by (auto simp add: setTemps_sent MIN_TEMP_def MAX_TEMP_def)

theorem setTemps_passenger_falsy_witness:
  "\<forall>enc. sent (setTemps
       \<lparr>portalBaseURI = ''https://owner-api.teslamotors.com'', env_VIN = JUndefined,
        URLSearchParams_toString = enc\<rparr>
       (JObject []) (Num 30) (Some (Num 0)) None (JNull, None, JUndefined)) =
     [\<lparr>req_method = ''GET'',
       req_url = ''https://owner-api.teslamotors.comset_temps?'' @
         enc (JObject [(''driver_temp'', JNumber (Num 28)),
                       (''passenger_temp'', JNumber (Num 28))]),
       req_headers = Some [(''X-SSL-Client-S-CN'', JUndefined)],
       req_body = Some (JObject [(''driver_temp'', JNumber (Num 28)),
                                 (''passenger_temp'', JNumber (Num 28))])\<rparr>]"
proof
  fix enc
  have h: "Some (Num 0) = None \<or> (\<exists>p. Some (Num 0) = Some p \<and> \<not> truthy (JNumber p))"
    by simp
  have c: "clamp (Num 30) MIN_TEMP MAX_TEMP = Num 28"
    by (simp add: clamp_def js_gt_def MIN_TEMP_def MAX_TEMP_def)
  show "sent (setTemps
       \<lparr>portalBaseURI = ''https://owner-api.teslamotors.com'', env_VIN = JUndefined,
        URLSearchParams_toString = enc\<rparr>
       (JObject []) (Num 30) (Some (Num 0)) None (JNull, None, JUndefined)) =
     [\<lparr>req_method = ''GET'',
       req_url = ''https://owner-api.teslamotors.comset_temps?'' @
         enc (JObject [(''driver_temp'', JNumber (Num 28)),
                       (''passenger_temp'', JNumber (Num 28))]),
       req_headers = Some [(''X-SSL-Client-S-CN'', JUndefined)],
       req_body = Some (JObject [(''driver_temp'', JNumber (Num 28)),
                                 (''passenger_temp'', JNumber (Num 28))])\<rparr>]"
    using setTemps_passenger_falsy [OF h, of
        "\<lparr>portalBaseURI = ''https://owner-api.teslamotors.com'', env_VIN = JUndefined,
          URLSearchParams_toString = enc\<rparr>" "JObject []" "Num 30" None
        "(JNull, None, JUndefined)"]
    by (simp add: c)
qed

section \<open>Properties of the identifier decoder\<close>

text \<open>
  C4. With no vehicle, or a vehicle without a \<open>vin\<close> (or with the empty one), \<open>vinDecode\<close>
  returns the default record: Model S, no all-wheel drive, 2012. The decoder has no
  failing branch on these inputs.
\<close>

theorem vinDecode_absent:
  "vinDecode None = \<lparr>carType = ''Model S'', awd = False, year = Num 2012\<rparr>
   \<and> vinDecode (Some (veh\<lparr>vin := None\<rparr>)) =
       \<lparr>carType = ''Model S'', awd = False, year = Num 2012\<rparr>
   \<and> vinDecode (Some (veh\<lparr>vin := Some []\<rparr>)) =
       \<lparr>carType = ''Model S'', awd = False, year = Num 2012\<rparr>"
  by (simp add: vinDecode_def)

theorem vinDecode_absent_witness:
  "vinDecode (Some \<lparr>vin = None, option_codes = Some ''MDLS,PPSW''\<rparr>) =
     \<lparr>carType = ''Model S'', awd = False, year = Num 2012\<rparr>"
  using vinDecode_absent [of "\<lparr>vin = Some ''5YJ3E1EB9KF000001'', option_codes = Some ''MDLS,PPSW''\<rparr>"]
  by simp

text \<open>
  C5. For an identifier with a character at position 9, the decoded year is 2010 plus the
  code of that character minus the code of \<open>A\<close>: \<open>A\<close> gives 2010 and \<open>L\<close> gives 2021. No
  check bounds the character, so the equation holds for every character.
\<close>

theorem vinDecode_year:
  assumes "vin veh = Some s" and "9 < length s"
  shows "year (vinDecode (Some veh)) =
           Num (2010 + (of_nat (of_char (s ! 9)) - of_nat (of_char (CHR ''A''))))
         \<and> (s ! 9 = CHR ''A'' \<longrightarrow> year (vinDecode (Some veh)) = Num 2010)
         \<and> (s ! 9 = CHR ''L'' \<longrightarrow> year (vinDecode (Some veh)) = Num 2021)"
proof -
  from assms(2) have ne: "s \<noteq> []" by auto
  have y: "year (vinDecode (Some veh)) =
           js_sub (js_add (Num 2010) (charCodeAt s 9)) (charCodeAt ''A'' 0)"
    using assms(1) ne by (simp add: vinDecode_def Let_def)
  have c: "charCodeAt s 9 = Num (of_nat (of_char (s ! 9)))"
    using assms(2) by (simp add: charCodeAt_def)
  have a: "charCodeAt ''A'' 0 = Num (of_nat (of_char (CHR ''A'')))"
    by (simp add: charCodeAt_def)
  have g: "year (vinDecode (Some veh)) =
           Num (2010 + (of_nat (of_char (s ! 9)) - of_nat (of_char (CHR ''A''))))"
    unfolding y c a by (simp add: js_sub_def)
  show ?thesis using g by simp
qed

theorem vinDecode_year_witness:
  "vin \<lparr>vin = Some ''5YJ3E1EB9KF000001'', option_codes = None\<rparr> = Some ''5YJ3E1EB9KF000001''
   \<and> 9 < length ''5YJ3E1EB9KF000001''
   \<and> year (vinDecode (Some \<lparr>vin = Some ''5YJ3E1EB9KF000001'', option_codes = None\<rparr>)) =
       Num 2020
   \<and> year (vinDecode (Some \<lparr>vin = Some ''5YJSA1E20LF000001'', option_codes = None\<rparr>)) =
       Num 2021
   \<and> year (vinDecode (Some \<lparr>vin = Some ''5YJSA1E200F000001'', option_codes = None\<rparr>)) =
       Num 1993"
proof -
  have k: "year (vinDecode (Some \<lparr>vin = Some ''5YJ3E1EB9KF000001'', option_codes = None\<rparr>)) =
       Num 2020"
    using vinDecode_year [of "\<lparr>vin = Some ''5YJ3E1EB9KF000001'', option_codes = None\<rparr>"
        "''5YJ3E1EB9KF000001''"]
    by simp
  have l: "year (vinDecode (Some \<lparr>vin = Some ''5YJSA1E20LF000001'', option_codes = None\<rparr>)) =
       Num 2021"
    using vinDecode_year [of "\<lparr>vin = Some ''5YJSA1E20LF000001'', option_codes = None\<rparr>"
        "''5YJSA1E20LF000001''"]
    by simp
  have z: "year (vinDecode (Some \<lparr>vin = Some ''5YJSA1E200F000001'', option_codes = None\<rparr>)) =
       Num 1993"
    using vinDecode_year [of "\<lparr>vin = Some ''5YJSA1E200F000001'', option_codes = None\<rparr>"
        "''5YJSA1E200F000001''"]
    by simp
  show ?thesis using k l z by simp
qed

text \<open>
  C6. The decoded model family depends on the character at position 3 only: \<open>S\<close> gives
  Model S, \<open>3\<close> gives Model 3, \<open>X\<close> gives Model X, \<open>Y\<close> gives Model Y, and every other
  character, or none, leaves the default Model S.
\<close>

theorem vinDecode_carType:
  assumes "vin veh = Some s"
  shows "carType (vinDecode (Some veh)) =
           (if 3 < length s \<and> s ! 3 = CHR ''S'' then ''Model S''
            else if 3 < length s \<and> s ! 3 = CHR ''3'' then ''Model 3''
            else if 3 < length s \<and> s ! 3 = CHR ''X'' then ''Model X''
            else if 3 < length s \<and> s ! 3 = CHR ''Y'' then ''Model Y''
            else ''Model S'')"
  using assms by (simp add: vinDecode_def Let_def charAt_def)

theorem vinDecode_carType_witness:
  "carType (vinDecode (Some \<lparr>vin = Some ''5YJ3E1EB9KF000001'', option_codes = None\<rparr>)) =
     ''Model 3''
   \<and> carType (vinDecode (Some \<lparr>vin = Some ''5YJXCDE22HF000001'', option_codes = None\<rparr>)) =
     ''Model X''
   \<and> carType (vinDecode (Some \<lparr>vin = Some ''5YJYGDEE0MF000001'', option_codes = None\<rparr>)) =
     ''Model Y''
   \<and> carType (vinDecode (Some \<lparr>vin = Some ''5YJRE1A31A1000001'', option_codes = None\<rparr>)) =
     ''Model S''"
proof -
  have a: "carType (vinDecode (Some \<lparr>vin = Some ''5YJ3E1EB9KF000001'', option_codes = None\<rparr>)) =
     ''Model 3''"
    using vinDecode_carType [of "\<lparr>vin = Some ''5YJ3E1EB9KF000001'', option_codes = None\<rparr>"
        "''5YJ3E1EB9KF000001''"]
    by simp
  have b: "carType (vinDecode (Some \<lparr>vin = Some ''5YJXCDE22HF000001'', option_codes = None\<rparr>)) =
     ''Model X''"
    using vinDecode_carType [of "\<lparr>vin = Some ''5YJXCDE22HF000001'', option_codes = None\<rparr>"
        "''5YJXCDE22HF000001''"]
    by simp
  have c: "carType (vinDecode (Some \<lparr>vin = Some ''5YJYGDEE0MF000001'', option_codes = None\<rparr>)) =
     ''Model Y''"
    using vinDecode_carType [of "\<lparr>vin = Some ''5YJYGDEE0MF000001'', option_codes = None\<rparr>"
        "''5YJYGDEE0MF000001''"]
    by simp
  have d: "carType (vinDecode (Some \<lparr>vin = Some ''5YJRE1A31A1000001'', option_codes = None\<rparr>)) =
     ''Model S''"
    using vinDecode_carType [of "\<lparr>vin = Some ''5YJRE1A31A1000001'', option_codes = None\<rparr>"
        "''5YJRE1A31A1000001''"]
    by simp
  show ?thesis using a b c d by simp
qed

text \<open>
  C7. The decoded all-wheel-drive flag is true exactly when the character at position 7
  is \<open>2\<close>, \<open>4\<close> or \<open>B\<close>; for every other character, or none, it is false.
\<close>

theorem vinDecode_awd:
  assumes "vin veh = Some s"
  shows "awd (vinDecode (Some veh)) =
           (7 < length s \<and> s ! 7 \<in> {CHR ''2'', CHR ''4'', CHR ''B''})"
  using assms by (auto simp add: vinDecode_def Let_def charAt_def)

theorem vinDecode_awd_witness:
  "awd (vinDecode (Some \<lparr>vin = Some ''5YJ3E1EB9KF000001'', option_codes = None\<rparr>))
   \<and> awd (vinDecode (Some \<lparr>vin = Some ''5YJXCDE22HF000001'', option_codes = None\<rparr>))
   \<and> awd (vinDecode (Some \<lparr>vin = Some ''5YJSA1E10LF000001'', option_codes = None\<rparr>)) = False
   \<and> awd (vinDecode (Some \<lparr>vin = Some ''5YJ3'', option_codes = None\<rparr>)) = False"
proof -
  have a: "awd (vinDecode (Some \<lparr>vin = Some ''5YJ3E1EB9KF000001'', option_codes = None\<rparr>))"
    using vinDecode_awd [of "\<lparr>vin = Some ''5YJ3E1EB9KF000001'', option_codes = None\<rparr>"
        "''5YJ3E1EB9KF000001''"]
    by simp
  have b: "awd (vinDecode (Some \<lparr>vin = Some ''5YJXCDE22HF000001'', option_codes = None\<rparr>))"
    using vinDecode_awd [of "\<lparr>vin = Some ''5YJXCDE22HF000001'', option_codes = None\<rparr>"
        "''5YJXCDE22HF000001''"]
    by simp
  have c: "awd (vinDecode (Some \<lparr>vin = Some ''5YJSA1E10LF000001'', option_codes = None\<rparr>)) = False"
    using vinDecode_awd [of "\<lparr>vin = Some ''5YJSA1E10LF000001'', option_codes = None\<rparr>"
        "''5YJSA1E10LF000001''"]
    by simp
  have d: "awd (vinDecode (Some \<lparr>vin = Some ''5YJ3'', option_codes = None\<rparr>)) = False"
    using vinDecode_awd [of "\<lparr>vin = Some ''5YJ3'', option_codes = None\<rparr>" "''5YJ3''"]
    by simp
  show ?thesis using a b c d by simp
qed

section \<open>Properties of the paint colour lookup\<close>

lemma find_none: "\<forall>a\<in>set alts. \<not> P a \<Longrightarrow> find P alts = None"
  by (induction alts) simp_all

lemma match_alternation_found:
  "find (\<lambda>a. prefix a s) alts = Some a \<Longrightarrow> match_alternation alts s = Some a"
  by (cases s) simp_all

lemma match_alternation_step:
  "find (\<lambda>a. prefix a (c # cs)) alts = None \<Longrightarrow>
   match_alternation alts (c # cs) = match_alternation alts cs"
  by simp

text \<open>Positions where no alternative matches are passed over.\<close>

lemma match_alternation_skip:
  "\<forall>i<length pre. find (\<lambda>a. prefix a (drop i (pre @ rest))) alts = None \<Longrightarrow>
   match_alternation alts (pre @ rest) = match_alternation alts rest"
proof (induction pre)
  case Nil
  then show ?case by simp
next
  case (Cons c pre)
  have "0 < length (c # pre)" by simp
  with Cons.prems have "find (\<lambda>a. prefix a (drop 0 ((c # pre) @ rest))) alts = None"
    by blast
  then have here: "find (\<lambda>a. prefix a (c # (pre @ rest))) alts = None"
    by simp
  have later: "\<forall>i<length pre. find (\<lambda>a. prefix a (drop i (pre @ rest))) alts = None"
  proof (intro allI impI)
    fix i assume "i < length pre"
    then have "Suc i < length (c # pre)" by simp
    with Cons.prems
    have "find (\<lambda>a. prefix a (drop (Suc i) ((c # pre) @ rest))) alts = None"
      by blast
    then show "find (\<lambda>a. prefix a (drop i (pre @ rest))) alts = None" by simp
  qed
  have "match_alternation alts ((c # pre) @ rest) = match_alternation alts (pre @ rest)"
    using match_alternation_step [OF here] by simp
  also have "\<dots> = match_alternation alts rest" by (rule Cons.IH [OF later])
  finally show ?case .
qed

lemma prefix_same_length: "length a = length c \<Longrightarrow> prefix a (c @ post) \<longleftrightarrow> a = c"
proof
  assume len: "length a = length c" and p: "prefix a (c @ post)"
  from p obtain r where r: "c @ post = a @ r" by (auto simp: prefix_def)
  with len show "a = c" by (simp add: append_eq_append_conv)
next
  assume "a = c" then show "prefix a (c @ post)" by simp
qed

text \<open>Among alternatives of one length, the one that matches at a position is unique.\<close>

lemma find_same_length:
  "\<forall>a\<in>set alts. length a = length c \<Longrightarrow> c \<in> set alts \<Longrightarrow>
   find (\<lambda>a. prefix a (c @ post)) alts = Some c"
proof (induction alts)
  case Nil
  then show ?case by simp
next
  case (Cons a alts)
  have la: "length a = length c" using Cons.prems(1) by simp
  have eq: "prefix a (c @ post) \<longleftrightarrow> a = c" using la by (rule prefix_same_length)
  show ?case
  proof (cases "a = c")
    case True
    then show ?thesis by simp
  next
    case False
    with Cons.prems have "c \<in> set alts" by simp
    moreover have "\<forall>a\<in>set alts. length a = length c" using Cons.prems(1) by simp
    ultimately have "find (\<lambda>a. prefix a (c @ post)) alts = Some c"
      by (rule Cons.IH [rotated])
    with False eq show ?thesis by simp
  qed
qed

lemma match_alternation_none:
  "\<forall>a\<in>set alts. \<not> sublist a s \<Longrightarrow> match_alternation alts s = None"
proof (induction s)
  case Nil
  have "\<forall>a\<in>set alts. \<not> prefix a []"
  proof
    fix a assume "a \<in> set alts"
    with Nil have "\<not> sublist a []" by blast
    then show "\<not> prefix a []" using prefix_imp_sublist by blast
  qed
  then have "find (\<lambda>a. prefix a []) alts = None" by (rule find_none)
  then show ?case by simp
next
  case (Cons c cs)
  have "\<forall>a\<in>set alts. \<not> prefix a (c # cs)"
  proof
    fix a assume "a \<in> set alts"
    with Cons.prems have "\<not> sublist a (c # cs)" by blast
    then show "\<not> prefix a (c # cs)" using prefix_imp_sublist by blast
  qed
  then have here: "find (\<lambda>a. prefix a (c # cs)) alts = None" by (rule find_none)
  have "\<forall>a\<in>set alts. \<not> sublist a cs"
  proof
    fix a assume "a \<in> set alts"
    with Cons.prems have "\<not> sublist a (c # cs)" by blast
    then show "\<not> sublist a cs" by (simp add: sublist_Cons_right)
  qed
  then have "match_alternation alts cs = None" by (rule Cons.IH)
  with match_alternation_step [OF here] show ?case by simp
qed

lemma paint_codes_length: "\<forall>a\<in>set paint_codes. length a = 4"
  by (simp add: paint_codes_def)

lemma colors_keys: "map fst colors = paint_codes"
  by (simp add: colors_def paint_codes_def)

lemma colors_null: "map_of colors ''null'' = None"
  by (simp add: colors_def)

lemma getPaintColor_first_code:
  assumes oc: "option_codes veh = Some (pre @ c @ post)"
    and c: "map_of colors c = Some name"
    and before:
      "\<forall>i<length pre. \<forall>a\<in>set paint_codes. \<not> prefix a (drop i (pre @ c @ post))"
  shows "getPaintColor (Some veh) = Inr name"
proof -
  from c have "(c, name) \<in> set colors" by (rule map_of_SomeD)
  then have "fst (c, name) \<in> fst ` set colors" by (rule imageI)
  then have "c \<in> set (map fst colors)" by simp
  then have cin: "c \<in> set paint_codes" by (simp only: colors_keys)
  have len: "\<forall>a\<in>set paint_codes. length a = length c"
    using paint_codes_length cin by simp
  have "\<forall>i<length pre. find (\<lambda>a. prefix a (drop i (pre @ c @ post))) paint_codes = None"
  proof (intro allI impI)
    fix i assume "i < length pre"
    with before have "\<forall>a\<in>set paint_codes. \<not> prefix a (drop i (pre @ c @ post))"
      by blast
    then show "find (\<lambda>a. prefix a (drop i (pre @ c @ post))) paint_codes = None"
      by (rule find_none)
  qed
  then have skip: "match_alternation paint_codes (pre @ c @ post) =
                   match_alternation paint_codes (c @ post)"
    by (rule match_alternation_skip)
  have "find (\<lambda>a. prefix a (c @ post)) paint_codes = Some c"
    using len cin by (rule find_same_length)
  then have "match_alternation paint_codes (c @ post) = Some c"
    by (rule match_alternation_found)
  with skip have "match_alternation paint_codes (pre @ c @ post) = Some c" by simp
  then show ?thesis using oc c by (simp add: getPaintColor_def)
qed

lemma getPaintColor_no_code:
  assumes oc: "option_codes veh = Some s"
    and none: "\<forall>a\<in>set paint_codes. \<not> sublist a s"
  shows "getPaintColor (Some veh) = Inr ''black''"
proof -
  have "match_alternation paint_codes s = None"
    using none by (rule match_alternation_none)
  then show ?thesis using oc by (simp add: getPaintColor_def colors_null)
qed

text \<open>
  C8, as amended. The table of \<open>getPaintColor\<close> has 15 entries, and the 15 alternatives
  of its pattern are the keys of the table, in order. The colour is the table's name for
  the leftmost recognized code of the option-code string: when a code \<open>c\<close> of the table
  stands in the string and no code of the table starts at an earlier position, the result
  is the name of \<open>c\<close>; so \<open>PPSW\<close> as the leftmost recognized code gives pearl white. A string
  with no recognized code gives the default black.
\<close>

theorem getPaintColor_leftmost:
  "length colors = 15 \<and> map fst colors = paint_codes
   \<and> (option_codes veh = Some (pre @ c @ post) \<and> map_of colors c = Some name
        \<and> (\<forall>i<length pre. \<forall>a\<in>set paint_codes. \<not> prefix a (drop i (pre @ c @ post)))
      \<longrightarrow> getPaintColor (Some veh) = Inr name)
   \<and> map_of colors ''PPSW'' = Some ''pearl white''
   \<and> (option_codes veh' = Some s \<and> (\<forall>a\<in>set paint_codes. \<not> sublist a s)
      \<longrightarrow> getPaintColor (Some veh') = Inr ''black'')"
proof -
  have n: "length colors = 15" by (simp add: colors_def)
  have w: "map_of colors ''PPSW'' = Some ''pearl white''" by (simp add: colors_def)
  have l: "option_codes veh = Some (pre @ c @ post) \<and> map_of colors c = Some name
        \<and> (\<forall>i<length pre. \<forall>a\<in>set paint_codes. \<not> prefix a (drop i (pre @ c @ post)))
      \<longrightarrow> getPaintColor (Some veh) = Inr name"
    using getPaintColor_first_code by blast
  have b: "option_codes veh' = Some s \<and> (\<forall>a\<in>set paint_codes. \<not> sublist a s)
      \<longrightarrow> getPaintColor (Some veh') = Inr ''black''"
    using getPaintColor_no_code by blast
  show ?thesis
    using n w colors_keys l b by (intro conjI)
qed

text \<open>The claim as stated fails twice: the table has 15 entries, not 14, and a string
  that contains \<open>PPSW\<close> after another recognized code does not give pearl white.\<close>

theorem getPaintColor_counterexample:
  "sublist ''PPSW'' ''PBCW,PPSW''
   \<and> getPaintColor (Some \<lparr>vin = None, option_codes = Some ''PBCW,PPSW''\<rparr>) = Inr ''white''
   \<and> length colors = 15 \<and> length paint_codes = 15"
  by code_simp

theorem getPaintColor_leftmost_witness:
  "getPaintColor (Some \<lparr>vin = None, option_codes = Some ''MDLS,RENA,PPSW,X''\<rparr>) =
     Inr ''pearl white''
   \<and> getPaintColor (Some \<lparr>vin = None, option_codes = Some ''MDLS,RENA,AD02''\<rparr>) =
     Inr ''black''"
proof -
  have h1: "option_codes \<lparr>vin = None, option_codes = Some ''MDLS,RENA,PPSW,X''\<rparr> =
      Some (''MDLS,RENA,'' @ ''PPSW'' @ '',X'')"
    by simp
  have h2: "map_of colors ''PPSW'' = Some ''pearl white''" by (simp add: colors_def)
  have "list_all (\<lambda>i. list_all (\<lambda>a. \<not> prefix a (drop i (''MDLS,RENA,'' @ ''PPSW'' @ '',X'')))
      paint_codes) [0..<length ''MDLS,RENA,'']"
    by code_simp
  then have h3: "\<forall>i<length ''MDLS,RENA,''. \<forall>a\<in>set paint_codes.
      \<not> prefix a (drop i (''MDLS,RENA,'' @ ''PPSW'' @ '',X''))"
    unfolding list_all_iff by (metis atLeastLessThan_iff set_upt zero_le)
  have h4: "option_codes \<lparr>vin = None, option_codes = Some ''MDLS,RENA,AD02''\<rparr> =
      Some ''MDLS,RENA,AD02''"
    by simp
  have h5: "\<forall>a\<in>set paint_codes. \<not> sublist a ''MDLS,RENA,AD02''" by code_simp
  have t: "(option_codes \<lparr>vin = None, option_codes = Some ''MDLS,RENA,PPSW,X''\<rparr> =
        Some (''MDLS,RENA,'' @ ''PPSW'' @ '',X'') \<and>
      map_of colors ''PPSW'' = Some ''pearl white'' \<and>
      (\<forall>i<length ''MDLS,RENA,''. \<forall>a\<in>set paint_codes.
          \<not> prefix a (drop i (''MDLS,RENA,'' @ ''PPSW'' @ '',X''))) \<longrightarrow>
      getPaintColor (Some \<lparr>vin = None, option_codes = Some ''MDLS,RENA,PPSW,X''\<rparr>) =
        Inr ''pearl white'') \<and>
     (option_codes \<lparr>vin = None, option_codes = Some ''MDLS,RENA,AD02''\<rparr> =
        Some ''MDLS,RENA,AD02'' \<and>
      (\<forall>a\<in>set paint_codes. \<not> sublist a ''MDLS,RENA,AD02'') \<longrightarrow>
      getPaintColor (Some \<lparr>vin = None, option_codes = Some ''MDLS,RENA,AD02''\<rparr>) =
        Inr ''black'')"
    using getPaintColor_leftmost [of
        "\<lparr>vin = None, option_codes = Some ''MDLS,RENA,PPSW,X''\<rparr>"
        "''MDLS,RENA,''" "''PPSW''" "'',X''" "''pearl white''"
        "\<lparr>vin = None, option_codes = Some ''MDLS,RENA,AD02''\<rparr>" "''MDLS,RENA,AD02''"]
    by blast
  show ?thesis using t h1 h2 h3 h4 h5 by blast
qed

section \<open>Properties of the request gateway\<close>

text \<open>
  C1. A command call with a payload object issues one request that carries the payload
  twice: its URL is the base URI, the command path, \<open>?\<close> and the query string that
  \<open>URLSearchParams\<close> makes of the payload, and its body is the payload itself. The method
  is GET.
\<close>

theorem post_command_request:
  "sent (post_command e options command (JObject kvs) callback rep) =
     [\<lparr>req_method = ''GET'',
       req_url = portalBaseURI e @ command @ ''?'' @ URLSearchParams_toString e (JObject kvs),
       req_headers = Some [(''X-SSL-Client-S-CN'', env_VIN e)],
       req_body = Some (JObject kvs)\<rparr>]"
  by (simp add: post_command_sent)

theorem post_command_request_witness:
  "\<forall>enc. sent (post_command
       \<lparr>portalBaseURI = ''https://owner-api.teslamotors.com'',
        env_VIN = JString ''5YJ3E1EB9KF000001'', URLSearchParams_toString = enc\<rparr>
       (JObject []) ''remote_seat_heater_request''
       (JObject [(''heater'', JNumber (Num 0)), (''level'', JNumber (Num 3))])
       None (JNull, Some \<lparr>statusCode = 200, statusMessage = ''OK''\<rparr>, JObject [])) =
     [\<lparr>req_method = ''GET'',
       req_url = ''https://owner-api.teslamotors.comremote_seat_heater_request?'' @
         enc (JObject [(''heater'', JNumber (Num 0)), (''level'', JNumber (Num 3))]),
       req_headers = Some [(''X-SSL-Client-S-CN'', JString ''5YJ3E1EB9KF000001'')],
       req_body = Some (JObject [(''heater'', JNumber (Num 0)), (''level'', JNumber (Num 3))])\<rparr>]"
proof
  fix enc
  show "sent (post_command
       \<lparr>portalBaseURI = ''https://owner-api.teslamotors.com'',
        env_VIN = JString ''5YJ3E1EB9KF000001'', URLSearchParams_toString = enc\<rparr>
       (JObject []) ''remote_seat_heater_request''
       (JObject [(''heater'', JNumber (Num 0)), (''level'', JNumber (Num 3))])
       None (JNull, Some \<lparr>statusCode = 200, statusMessage = ''OK''\<rparr>, JObject [])) =
     [\<lparr>req_method = ''GET'',
       req_url = ''https://owner-api.teslamotors.comremote_seat_heater_request?'' @
         enc (JObject [(''heater'', JNumber (Num 0)), (''level'', JNumber (Num 3))]),
       req_headers = Some [(''X-SSL-Client-S-CN'', JString ''5YJ3E1EB9KF000001'')],
       req_body = Some (JObject [(''heater'', JNumber (Num 0)), (''level'', JNumber (Num 3))])\<rparr>]"
    using post_command_request [of
        "\<lparr>portalBaseURI = ''https://owner-api.teslamotors.com'',
          env_VIN = JString ''5YJ3E1EB9KF000001'', URLSearchParams_toString = enc\<rparr>"
        "JObject []" "''remote_seat_heater_request''"
        "[(''heater'', JNumber (Num 0)), (''level'', JNumber (Num 3))]"
        None "(JNull, Some \<lparr>statusCode = 200, statusMessage = ''OK''\<rparr>, JObject [])"]
    by simp
qed













text \<open>
  C3 fails on \<open>refreshToken\<close>. With a refresh token and any callback, absent included,
  a transport failure (the handler gets no body) makes the handler raise \<open>TypeError\<close>
  while it builds the result object: the request was issued, the callback, substituted
  or not, is never called, and the failure is not discarded.
\<close>

theorem refreshToken_transport_failure:
  "thrown (refreshToken e (JString (c # cs)) callback (error, response, JUndefined)) =
     Some TypeError
   \<and> calls (refreshToken e (JString (c # cs)) callback (error, response, JUndefined)) = []
   \<and> length (sent (refreshToken e (JString (c # cs)) callback
        (error, response, JUndefined))) = 1"
  by (simp add: refreshToken_def Let_def)

text \<open>The read and command paths do keep to the policy of C3: with no callback, the
  request is issued all the same and nothing escapes, whatever the reply.\<close>

lemma try_callback_noop: "try_callback noop body = ([(JNull, body)], None)"
  by (simp add: try_callback_def noop_def)

lemma gateway_without_callback:
  assumes "truthy error \<or> response \<noteq> None"
  shows "thrown (get_command e options command None (error, response, body)) = None"
    and "thrown (post_command ce options command payload None (error, response, body)) = None"
    and "thrown (vehicles e options None (error, response, body)) = None"
    and "length (sent (get_command e options command None (error, response, body))) = 1"
    and "length (sent (post_command ce options command payload None
           (error, response, body))) = 1"
    and "length (sent (vehicles e options None (error, response, body))) = 1"
  using assms
  by (auto simp add: get_command_def post_command_def vehicles_def or_noop_def invoke_def
      try_callback_noop Let_def noop_def split: option.splits)

lemma vehicle_without_callback:
  assumes "truthy error \<or> response \<noteq> None"
  shows "thrown (fst (vehicle e options None (error, response, body))) = None"
  using assms
  by (auto simp add: vehicle_def or_noop_def invoke_def
      try_callback_noop Let_def noop_def split: option.splits sum.splits)

end
